theory Spec2Isabelle
  imports Main
begin

section \<open>The Dynamo connector hook (useDynamoConnector)\<close>

subsection \<open>Data model\<close>

text \<open>The enum \<open>DynamoConnectionState\<close> of the source, member for member.\<close>

datatype DynamoConnectionState =
    INIT
  | CONNECTED
  | MULTIPLE_CONNECTIONS
  | NOT_CONNECTED
  | BLOCKED
  | LOST_CONNECTION

text \<open>
  \<open>GraphInfo\<close> is a payload the connector stores and never inspects; it is represented
  by its serialised text.
\<close>

datatype GraphInfo = GraphInfo string

text \<open>\<open>DynamoState\<close>: an optional \<open>currentOpenGraph\<close> and the \<open>connectionState\<close>.\<close>

record DynamoState =
  currentOpenGraph :: "GraphInfo option"
  connectionState :: DynamoConnectionState

text \<open>
  A rejection of a service call. The source reads two properties of it: \<open>status\<close> (compared
  with 503 and 500; absent for an error raised by the transport itself) and \<open>message\<close>.
\<close>

record FetchError =
  status :: "nat option"
  message :: string

text \<open>The value a successful health check resolves with; the source reads its \<open>port\<close>.\<close>

record HealthResponse =
  port :: nat

text \<open>
  A settled promise: the instant at which it settled and its outcome, \<open>Inl\<close> a rejection and
  \<open>Inr\<close> a fulfilment. The instants order the settlements of the probes of one round; two
  promises do not settle in the same job, and where two stamps are equal the earlier list
  position counts as the earlier settlement.
\<close>

type_synonym 'a promise = "nat \<times> (FetchError + 'a)"

text \<open>
  What the \<open>catch\<close> of \<open>portDiscovery\<close> can receive: an \<open>AggregateError\<close> carrying the
  rejections in the order of the promises passed, or anything else.
\<close>

datatype exn = AggregateError "FetchError list" | OtherError

text \<open>
  The state held by the hook: the two \<open>useState\<close> cells, the interval armed by the second
  effect (the milliseconds left until it fires next, \<open>None\<close> when no interval is armed), and
  a counter of the calls of \<open>portDiscovery\<close> made so far, which only observes.
\<close>

record connector =
  state :: "DynamoState"
  dynamoPort :: "nat option"
  intervalId :: "nat option"
  discoveryCalls :: nat

subsection \<open>Promise.any\<close>

text \<open>The fulfilment that settles first, with its instant.\<close>

fun firstFulfilled :: "'a promise list \<Rightarrow> (nat \<times> 'a) option" where
  "firstFulfilled [] = None"
| "firstFulfilled ((t, Inl e) # ps) = firstFulfilled ps"
| "firstFulfilled ((t, Inr v) # ps) =
     (case firstFulfilled ps of
        None \<Rightarrow> Some (t, v)
      | Some (t', v') \<Rightarrow> if t' < t then Some (t', v') else Some (t, v))"

fun rejections :: "'a promise list \<Rightarrow> FetchError list" where
  "rejections [] = []"
| "rejections ((t, Inl e) # ps) = e # rejections ps"
| "rejections ((t, Inr v) # ps) = rejections ps"

text \<open>
  \<open>Promise.any\<close>: resolves with the value of the first promise to fulfil; rejects with an
  \<open>AggregateError\<close> of all rejections, in input order, when none fulfils.
\<close>

definition Promise_any :: "'a promise list \<Rightarrow> exn + 'a" where
  "Promise_any ps =
     (case firstFulfilled ps of
        Some (t, v) \<Rightarrow> Inr v
      | None \<Rightarrow> Inl (AggregateError (rejections ps)))"

subsection \<open>State setters and effects\<close>

definition setDynamoPort :: "nat option \<Rightarrow> connector \<Rightarrow> connector" where
  "setDynamoPort p h = h\<lparr>dynamoPort := p\<rparr>"

text \<open>
  The synchronous part of \<open>portDiscovery\<close>, up to its \<open>await\<close>: the port is cleared and the
  probes are issued.
\<close>

definition portDiscovery_begin :: "connector \<Rightarrow> connector" where
  "portDiscovery_begin h =
     (setDynamoPort None h)\<lparr>discoveryCalls := Suc (discoveryCalls h)\<rparr>"

text \<open>The states in which the second effect arms the interval, in the order of the source.\<close>

definition timerStates :: "DynamoConnectionState list" where
  "timerStates = [NOT_CONNECTED, MULTIPLE_CONNECTIONS, BLOCKED, LOST_CONNECTION]"

text \<open>
  Both effects depend on \<open>state.connectionState\<close> only. When it has changed, the cleanup of
  the previous run of the second effect clears the interval, the first effect calls
  \<open>portDiscovery\<close> in state \<open>INIT\<close>, and the second arms an interval of 2000 ms in the
  four timer states.
\<close>

definition runEffects :: "connector \<Rightarrow> connector" where
  "runEffects h =
     (let h1 = h\<lparr>intervalId := None\<rparr>;
          h2 = (if connectionState (state h1) = INIT then portDiscovery_begin h1 else h1)
      in if connectionState (state h2) \<in> set timerStates
         then h2\<lparr>intervalId := Some 2000\<rparr>
         else h2)"

text \<open>
  \<open>setState((state) => ({ ...state, connectionState: s }))\<close>: every other field of the
  state is copied; the effects run when the connection state differs from the previous one.
  The source runs the effects after the render that follows the update; here the update
  and the effects it triggers are one step, so an instant measured from the update is
  early by the time that render takes. What the update and its effects do to the state,
  the port and the number of rounds started is the same either way.
\<close>

definition setConnectionState :: "DynamoConnectionState \<Rightarrow> connector \<Rightarrow> connector" where
  "setConnectionState s h =
     (let h1 = h\<lparr>state := (state h)\<lparr>connectionState := s\<rparr>\<rparr>
      in if connectionState (state h) = s then h1 else runEffects h1)"

text \<open>The hook at its first render, and after the effects of that render have run.\<close>

definition initial :: "connector" where
  "initial =
     \<lparr>state = \<lparr>currentOpenGraph = None, connectionState = INIT\<rparr>,
      dynamoPort = None, intervalId = None, discoveryCalls = 0\<rparr>"

definition mount :: "connector" where
  "mount = runEffects initial"

subsection \<open>portDiscovery\<close>

definition defaultPort :: nat where
  "defaultPort = 55100"

definition portsToCheck :: "nat list" where
  "portsToCheck = map (\<lambda>i. defaultPort + i) [0..<10]"

text \<open>The part of \<open>portDiscovery\<close> after the \<open>await\<close>, given how \<open>Promise.any\<close> settled.\<close>

definition portDiscovery_settle :: "exn + HealthResponse \<Rightarrow> connector \<Rightarrow> connector" where
  "portDiscovery_settle r h =
     (case r of
        Inr response \<Rightarrow> setDynamoPort (Some (port response)) (setConnectionState CONNECTED h)
      | Inl (AggregateError errors) \<Rightarrow>
          if find (\<lambda>e. status e = Some 503) errors \<noteq> None
          then setConnectionState BLOCKED h
          else setConnectionState NOT_CONNECTED h
      | Inl OtherError \<Rightarrow> h)"

text \<open>
  One whole round. \<open>Dynamo_health\<close> is the static \<open>Dynamo.health\<close>, which is not part of
  the sources at hand: it is a parameter, giving for each port the settled promise of its
  probe.
\<close>

definition portDiscovery :: "(nat \<Rightarrow> HealthResponse promise) \<Rightarrow> connector \<Rightarrow> connector" where
  "portDiscovery Dynamo_health h =
     portDiscovery_settle (Promise_any (map Dynamo_health portsToCheck)) (portDiscovery_begin h)"

subsection \<open>Time\<close>

text \<open>
  One millisecond passes: an armed interval counts down and, on reaching its period, calls
  \<open>portDiscovery\<close> and starts over.
\<close>

definition tick :: "connector \<Rightarrow> connector" where
  "tick h =
     (case intervalId h of
        None \<Rightarrow> h
      | Some r \<Rightarrow>
          if r \<le> 1 then portDiscovery_begin (h\<lparr>intervalId := Some 2000\<rparr>)
          else h\<lparr>intervalId := Some (r - 1)\<rparr>)"

fun elapse :: "nat \<Rightarrow> connector \<Rightarrow> connector" where
  "elapse 0 h = h"
| "elapse (Suc n) h = elapse n (tick h)"

subsection \<open>Histories of the hook\<close>

text \<open>
  What can happen to the hook once it is mounted: \<open>portDiscovery\<close> is called through the
  exported \<open>reconnect\<close>, the \<open>await\<close> of a round returns, the \<open>catch\<close> handler of a facade
  operation sets \<open>LOST_CONNECTION\<close>, or time passes.
\<close>

datatype event =
    Reconnect
  | RoundSettled "exn + HealthResponse"
  | Demoted
  | Elapsed nat

fun occur :: "event \<Rightarrow> connector \<Rightarrow> connector" where
  "occur Reconnect h = portDiscovery_begin h"
| "occur (RoundSettled r) h = portDiscovery_settle r h"
| "occur Demoted h = setConnectionState LOST_CONNECTION h"
| "occur (Elapsed n) h = elapse n h"

fun after :: "event list \<Rightarrow> connector \<Rightarrow> connector" where
  "after [] h = h"
| "after (ev # evs) h = after evs (occur ev h)"


subsection \<open>The service facade (dynamoLocalService)\<close>

text \<open>
  The class \<open>Dynamo\<close> lives in \<open>service/dynamo.ts\<close>, which is not part of the sources at
  hand. An instance is bound to a URL and answers requests; it is a parameter of every
  facade operation, giving the settlement of the call: \<open>Inl\<close> a rejection, \<open>Inr\<close> the reply
  of the service, of an opaque type \<open>'r\<close>.
\<close>

text \<open>\<open>getDynamoUrl\<close>: the loopback address at the port held by the hook, present or not.\<close>

datatype url = Localhost "nat option"

definition getDynamoUrl :: "connector \<Rightarrow> url" where
  "getDynamoUrl h = Localhost (dynamoPort h)"

text \<open>
  Modelled from the spec: \<open>GraphTarget\<close> is declared in the missing \<open>service/dynamo.ts\<close>; a
  target is either the current graph (the source builds \<open>{ type: "CurrentGraphTarget" }\<close>)
  or an explicit graph identifier. \<open>RunInputs\<close> is an opaque payload.
\<close>

datatype GraphTarget = CurrentGraphTarget | PathGraphTarget string

type_synonym RunInputs = "(string \<times> string) list"

datatype request =
    FolderRequest string
  | InfoRequest GraphTarget
  | RunRequest GraphTarget RunInputs
  | TrustRequest string
  | ServerInfoRequest

type_synonym 'r Dynamo = "url \<Rightarrow> request \<Rightarrow> FetchError + 'r"

text \<open>
  Each member of the facade returns what the caller's promise settles with, and the hook
  after the member's \<open>catch\<close> handler, where it has one, has run.
\<close>

definition folder :: "'r Dynamo \<Rightarrow> string \<Rightarrow> connector \<Rightarrow> (FetchError + 'r) \<times> connector" where
  "folder dynamo path h =
     (case dynamo (getDynamoUrl h) (FolderRequest path) of
        Inl e \<Rightarrow> (Inl e, setConnectionState LOST_CONNECTION h)
      | Inr r \<Rightarrow> (Inr r, h))"

definition current :: "'r Dynamo \<Rightarrow> connector \<Rightarrow> (FetchError + 'r) \<times> connector" where
  "current dynamo h = (dynamo (getDynamoUrl h) (InfoRequest CurrentGraphTarget), h)"

definition info :: "'r Dynamo \<Rightarrow> GraphTarget \<Rightarrow> connector \<Rightarrow> (FetchError + 'r) \<times> connector" where
  "info dynamo target h =
     (case dynamo (getDynamoUrl h) (InfoRequest target) of
        Inl e \<Rightarrow>
          (Inl e,
           if \<not> (status e = Some 500 \<and> message e = ''Graph is not trusted.'')
           then setConnectionState LOST_CONNECTION h
           else h)
      | Inr r \<Rightarrow> (Inr r, h))"

definition run :: "'r Dynamo \<Rightarrow> GraphTarget \<Rightarrow> RunInputs \<Rightarrow> connector \<Rightarrow> (FetchError + 'r) \<times> connector" where
  "run dynamo target inputs h =
     (case dynamo (getDynamoUrl h) (RunRequest target inputs) of
        Inl e \<Rightarrow> (Inl e, setConnectionState LOST_CONNECTION h)
      | Inr r \<Rightarrow> (Inr r, h))"

definition trust :: "'r Dynamo \<Rightarrow> string \<Rightarrow> connector \<Rightarrow> (FetchError + 'r) \<times> connector" where
  "trust dynamo path h =
     (case dynamo (getDynamoUrl h) (TrustRequest path) of
        Inl e \<Rightarrow> (Inl e, setConnectionState LOST_CONNECTION h)
      | Inr r \<Rightarrow> (Inr r, h))"

definition serverInfo :: "'r Dynamo \<Rightarrow> connector \<Rightarrow> (FetchError + 'r) \<times> connector" where
  "serverInfo dynamo h = (dynamo (getDynamoUrl h) ServerInfoRequest, h)"

definition health :: "(nat \<Rightarrow> HealthResponse promise) \<Rightarrow> nat \<Rightarrow> connector
    \<Rightarrow> (FetchError + HealthResponse) \<times> connector" where
  "health Dynamo_health p h = (snd (Dynamo_health p), h)"

subsection \<open>The queued facade (queuedDynamoLocalService)\<close>


definition queued_current :: "'r Dynamo \<Rightarrow> string \<times> (connector \<Rightarrow> (FetchError + 'r) \<times> connector)" where
  "queued_current dynamo = (''executing: current'', info dynamo CurrentGraphTarget)"



definition queued_trust :: "'r Dynamo \<Rightarrow> string \<Rightarrow> string \<times> (connector \<Rightarrow> (FetchError + 'r) \<times> connector)" where
  "queued_trust dynamo path = (''executing: trust'', trust dynamo path)"

definition queued_serverInfo :: "'r Dynamo \<Rightarrow> string \<times> (connector \<Rightarrow> (FetchError + 'r) \<times> connector)" where
  "queued_serverInfo dynamo = (''executing: serverInfo'', serverInfo dynamo)"

definition queued_health :: "(nat \<Rightarrow> HealthResponse promise) \<Rightarrow> nat
    \<Rightarrow> string \<times> (connector \<Rightarrow> (FetchError + HealthResponse) \<times> connector)" where
  "queued_health Dynamo_health p = (''executing: health'', health Dynamo_health p)"

subsection \<open>The serial request queue (PromiseQueue)\<close>














subsection \<open>The vocabulary of the specification\<close>

text \<open>
  Modelled from the spec: the outcome of one probe as the specification names it. A
  fulfilled health check is \<open>Live\<close> at the port it reports, a rejection with status 503 is
  \<open>Rejected 503\<close>, and every other rejection is \<open>Unreachable\<close>.
\<close>

datatype ProbeResult = Live nat | Unreachable | Rejected nat

definition probeResult :: "HealthResponse promise \<Rightarrow> ProbeResult" where
  "probeResult p =
     (case snd p of
        Inr response \<Rightarrow> Live (port response)
      | Inl e \<Rightarrow> if status e = Some 503 then Rejected 503 else Unreachable)"

subsection \<open>Concrete inputs\<close>

definition refused :: FetchError where
  "refused = \<lparr>status = None, message = ''Failed to fetch''\<rparr>"

definition unavailable :: FetchError where
  "unavailable = \<lparr>status = Some 503, message = ''Service Unavailable''\<rparr>"

definition notTrusted :: FetchError where
  "notTrusted = \<lparr>status = Some 500, message = ''Graph is not trusted.''\<rparr>"

definition serverError :: FetchError where
  "serverError = \<lparr>status = Some 500, message = ''Internal Server Error''\<rparr>"

text \<open>Port 55103 answers after 4 ms; every other port refuses the connection.\<close>

definition oneLive :: "nat \<Rightarrow> HealthResponse promise" where
  "oneLive p = (if p = 55103 then (4, Inr \<lparr>port = 55103\<rparr>) else (1, Inl refused))"

text \<open>Ports 55100 and 55104 both answer, 55104 first; every other port refuses.\<close>

definition twoLive :: "nat \<Rightarrow> HealthResponse promise" where
  "twoLive p =
     (if p = 55100 then (7, Inr \<lparr>port = 55100\<rparr>)
      else if p = 55104 then (3, Inr \<lparr>port = 55104\<rparr>)
      else (1, Inl refused))"

text \<open>Port 55102 answers 503; every other port refuses.\<close>

definition oneBlocked :: "nat \<Rightarrow> HealthResponse promise" where
  "oneBlocked p = (if p = 55102 then (2, Inl unavailable) else (1, Inl refused))"

text \<open>Every port refuses.\<close>

definition noneLive :: "nat \<Rightarrow> HealthResponse promise" where
  "noneLive p = (1, Inl refused)"

text \<open>A service instance whose every call is rejected with the given error.\<close>

definition failing :: "FetchError \<Rightarrow> unit Dynamo" where
  "failing e u r = Inl e"





text \<open>The hook after its first round, the one started on mounting, found port 55103.\<close>

definition connected :: "connector" where
  "connected = portDiscovery oneLive initial"

text \<open>The connected hook with a graph open.\<close>

definition graphOpen :: "connector" where
  "graphOpen = connected\<lparr>state := (state connected)\<lparr>currentOpenGraph := Some (GraphInfo ''tower.dyn'')\<rparr>\<rparr>"

section \<open>Properties\<close>

subsection \<open>Auxiliary facts\<close>

lemma portsToCheck_eq:
  "portsToCheck = [55100, 55101, 55102, 55103, 55104, 55105, 55106, 55107, 55108, 55109]"
  by (simp add: portsToCheck_def defaultPort_def upt_rec)

lemma firstFulfilled_None:
  "(firstFulfilled ps = None) = (\<forall>p\<in>set ps. \<exists>e. snd p = Inl e)"
  by (induction ps rule: firstFulfilled.induct) (auto split: option.splits)

lemma firstFulfilled_Some:
  "firstFulfilled ps = Some (t, v) \<Longrightarrow>
     (t, Inr v) \<in> set ps \<and> (\<forall>t' v'. (t', Inr v') \<in> set ps \<longrightarrow> t \<le> t')"
  by (induction ps arbitrary: t v rule: firstFulfilled.induct)
     (fastforce simp: firstFulfilled_None split: option.splits if_splits)+

lemma rejections_map:
  "(\<exists>e\<in>set (rejections (map H qs)). P e) = (\<exists>q\<in>set qs. \<exists>t e. H q = (t, Inl e) \<and> P e)"
proof (induction qs)
  case Nil
  then show ?case by simp
next
  case (Cons q qs)
  obtain t r where Hq: "H q = (t, r)" by (cases "H q")
  show ?case using Cons Hq by (cases r) auto
qed

lemma find_503:
  "(find (\<lambda>e. status e = Some 503) es \<noteq> None) = (\<exists>e\<in>set es. status e = Some 503)"
  by (auto simp: find_None_iff)

lemmas setter_defs =
  setConnectionState_def runEffects_def portDiscovery_begin_def setDynamoPort_def Let_def

lemma connectionState_set:
  "connectionState (state (setConnectionState s h)) = s"
  by (simp add: setter_defs)

lemma dynamoPort_set:
  "s \<noteq> INIT \<Longrightarrow> dynamoPort (setConnectionState s h) = dynamoPort h"
  by (simp add: setter_defs)

lemma state_set:
  "state (setConnectionState s h) = (state h)\<lparr>connectionState := s\<rparr>"
  by (simp add: setter_defs)

lemma discoveryCalls_set:
  "s \<noteq> INIT \<Longrightarrow> discoveryCalls (setConnectionState s h) = discoveryCalls h"
  by (simp add: setter_defs)


text \<open>The outcome of a round in terms of the settled probes.\<close>

lemma round_resolved:
  assumes "firstFulfilled (map H portsToCheck) = Some (t, v)"
  shows "connectionState (state (portDiscovery H h)) = CONNECTED
       \<and> dynamoPort (portDiscovery H h) = Some (port v)"
  using assms
  by (simp add: portDiscovery_def portDiscovery_settle_def Promise_any_def
      connectionState_set setDynamoPort_def)

lemma find_503_map:
  "(find (\<lambda>e. status e = Some 503) (rejections (map H qs)) = None) =
   (\<not> (\<exists>q\<in>set qs. \<exists>t e. H q = (t, Inl e) \<and> status e = Some 503))"
proof -
  have "(find (\<lambda>e. status e = Some 503) (rejections (map H qs)) = None) =
        (\<not> (\<exists>e\<in>set (rejections (map H qs)). status e = Some 503))"
    by (auto simp: find_None_iff)
  then show ?thesis by (simp only: rejections_map)
qed

lemma round_rejected:
  assumes "firstFulfilled (map H portsToCheck) = None"
  shows "connectionState (state (portDiscovery H h)) =
           (if \<exists>q\<in>set portsToCheck. \<exists>t e. H q = (t, Inl e) \<and> status e = Some 503
            then BLOCKED else NOT_CONNECTED)
       \<and> dynamoPort (portDiscovery H h) = None"
proof (cases "find (\<lambda>e. status e = Some 503) (rejections (map H portsToCheck))")
  case None
  with find_503_map [of H portsToCheck]
  have "\<not> (\<exists>q\<in>set portsToCheck. \<exists>t e. H q = (t, Inl e) \<and> status e = Some 503)"
    by simp
  then show ?thesis
    using assms None
    by (simp add: portDiscovery_def portDiscovery_settle_def Promise_any_def
        connectionState_set dynamoPort_set portDiscovery_begin_def setDynamoPort_def)
next
  case (Some e)
  with find_503_map [of H portsToCheck]
  have "\<exists>q\<in>set portsToCheck. \<exists>t e. H q = (t, Inl e) \<and> status e = Some 503"
    by simp
  then show ?thesis
    using assms Some
    by (simp add: portDiscovery_def portDiscovery_settle_def Promise_any_def
        connectionState_set dynamoPort_set portDiscovery_begin_def setDynamoPort_def)
qed

lemma probeResult_Live:
  "(probeResult pr = Live p) = (\<exists>t v. pr = (t, Inr v) \<and> port v = p)"
  by (cases pr) (auto simp: probeResult_def split: sum.splits)

lemma probeResult_Rejected:
  "(probeResult pr = Rejected 503) = (\<exists>t e. pr = (t, Inl e) \<and> status e = Some 503)"
  by (cases pr) (auto simp: probeResult_def split: sum.splits)

lemma probeResult_not_Live:
  "(\<forall>p. probeResult pr \<noteq> Live p) = (\<exists>e. snd pr = Inl e)"
  by (cases pr) (auto simp: probeResult_def split: sum.splits)

lemmas concrete_defs =
  oneLive_def twoLive_def oneBlocked_def noneLive_def refused_def unavailable_def
  probeResult_def

lemma currentOpenGraph_set:
  "currentOpenGraph (state (setConnectionState s h)) = currentOpenGraph (state h)"
  by (simp add: state_set)

lemma currentOpenGraph_begin:
  "currentOpenGraph (state (portDiscovery_begin h)) = currentOpenGraph (state h)"
  by (simp add: portDiscovery_begin_def setDynamoPort_def)

lemma currentOpenGraph_settle:
  "currentOpenGraph (state (portDiscovery_settle r h)) = currentOpenGraph (state h)"
  by (simp add: portDiscovery_settle_def setDynamoPort_def currentOpenGraph_set
      split: sum.splits exn.splits)

lemmas facade_defs =
  folder_def current_def info_def run_def trust_def serverInfo_def health_def

lemma mount_eq:
  "mount =
     \<lparr>state = \<lparr>currentOpenGraph = None, connectionState = INIT\<rparr>,
      dynamoPort = None, intervalId = None, discoveryCalls = 1\<rparr>"
  by (simp add: mount_def initial_def setter_defs timerStates_def)

lemma connected_eq:
  "connected =
     \<lparr>state = \<lparr>currentOpenGraph = None, connectionState = CONNECTED\<rparr>,
      dynamoPort = Some 55103, intervalId = None, discoveryCalls = 1\<rparr>"
  by (simp add: connected_def portsToCheck_eq concrete_defs portDiscovery_def
      portDiscovery_settle_def Promise_any_def setter_defs initial_def timerStates_def)

lemma facade_dynamoPort:
  "dynamoPort (snd (folder dynamo path h)) = dynamoPort h"
  "dynamoPort (snd (current dynamo h)) = dynamoPort h"
  "dynamoPort (snd (info dynamo target h)) = dynamoPort h"
  "dynamoPort (snd (run dynamo target inputs h)) = dynamoPort h"
  "dynamoPort (snd (trust dynamo path h)) = dynamoPort h"
  "dynamoPort (snd (serverInfo dynamo h)) = dynamoPort h"
  by (simp_all add: facade_defs dynamoPort_set split: sum.splits)

lemma round_endpoint:
  "connectionState (state (portDiscovery H h)) \<noteq> CONNECTED \<Longrightarrow>
     dynamoPort (portDiscovery H h) = None"
proof (cases "firstFulfilled (map H portsToCheck)")
  case None
  from round_rejected [OF this] show ?thesis by blast
next
  case (Some a)
  assume ne: "connectionState (state (portDiscovery H h)) \<noteq> CONNECTED"
  obtain t v where "a = (t, v)" by (cases a)
  with Some round_resolved [of H t v h] ne show ?thesis by simp
qed

lemma facade_currentOpenGraph:
  "currentOpenGraph (state (snd (folder dynamo path h))) = currentOpenGraph (state h)"
  "currentOpenGraph (state (snd (current dynamo h))) = currentOpenGraph (state h)"
  "currentOpenGraph (state (snd (info dynamo target h))) = currentOpenGraph (state h)"
  "currentOpenGraph (state (snd (run dynamo target inputs h))) = currentOpenGraph (state h)"
  "currentOpenGraph (state (snd (trust dynamo path h))) = currentOpenGraph (state h)"
  "currentOpenGraph (state (snd (serverInfo dynamo h))) = currentOpenGraph (state h)"
  "currentOpenGraph (state (snd (health Dynamo_health p h))) = currentOpenGraph (state h)"
  by (simp_all add: facade_defs currentOpenGraph_set split: sum.splits)

subsection \<open>Discovery rounds\<close>

text \<open>
  Claim C2, as amended. The claim says that a round in which two or more probes are live
  ends in \<open>MULTIPLE_CONNECTIONS\<close> with no port set. \<open>portDiscovery\<close> awaits \<open>Promise.any\<close>,
  which resolves with the first probe to fulfil, and no statement of the hook ever assigns
  \<open>MULTIPLE_CONNECTIONS\<close>. What holds: when two or more probes are live the round ends in
  \<open>CONNECTED\<close>, and the port set is the one reported by a live probe that no other live
  probe settled before.
\<close>

theorem C2_amended_first_live_wins:
  assumes "q1 \<in> set portsToCheck" and "q2 \<in> set portsToCheck" and "q1 \<noteq> q2"
      and "probeResult (Dynamo_health q1) = Live p1"
      and "probeResult (Dynamo_health q2) = Live p2"
  shows "connectionState (state (portDiscovery Dynamo_health h)) = CONNECTED
       \<and> (\<exists>q\<in>set portsToCheck. \<exists>t response.
            Dynamo_health q = (t, Inr response)
          \<and> dynamoPort (portDiscovery Dynamo_health h) = Some (port response)
          \<and> (\<forall>r\<in>set portsToCheck. \<forall>t' response'.
               Dynamo_health r = (t', Inr response') \<longrightarrow> t \<le> t'))"
proof -
  from assms(4) obtain t v where live: "Dynamo_health q1 = (t, Inr v)"
    by (auto simp: probeResult_Live)
  have "firstFulfilled (map Dynamo_health portsToCheck) \<noteq> None"
    using assms(1) live by (auto simp: firstFulfilled_None intro!: bexI [of _ q1])
  then obtain t' v' where ff: "firstFulfilled (map Dynamo_health portsToCheck) = Some (t', v')"
    by auto
  from firstFulfilled_Some [OF ff] obtain r where r: "r \<in> set portsToCheck"
    "Dynamo_health r = (t', Inr v')"
    and least: "\<forall>t'' v''. (t'', Inr v'') \<in> set (map Dynamo_health portsToCheck) \<longrightarrow> t' \<le> t''"
    by auto
  have "\<forall>r\<in>set portsToCheck. \<forall>t'' response'.
          Dynamo_health r = (t'', Inr response') \<longrightarrow> t' \<le> t''"
    using least by (metis image_eqI list.set_map)
  with round_resolved [OF ff, of h] r show ?thesis by blast
qed

text \<open>
  The amended claim C2 at a concrete round: ports 55100 and 55104 are live, the others
  refuse.
\<close>

theorem C2_amended_first_live_wins_witness:
  "map (probeResult \<circ> twoLive) portsToCheck =
     [Live 55100, Unreachable, Unreachable, Unreachable, Live 55104,
      Unreachable, Unreachable, Unreachable, Unreachable, Unreachable]
   \<and> connectionState (state (portDiscovery twoLive initial)) = CONNECTED"
proof -
  have 1: "55100 \<in> set portsToCheck" and 2: "55104 \<in> set portsToCheck"
    by (simp_all add: portsToCheck_eq)
  have 3: "(55100::nat) \<noteq> 55104" by simp
  have 4: "probeResult (twoLive 55100) = Live 55100"
    and 5: "probeResult (twoLive 55104) = Live 55104"
    by (simp_all add: concrete_defs)
  have 6: "map (probeResult \<circ> twoLive) portsToCheck =
     [Live 55100, Unreachable, Unreachable, Unreachable, Live 55104,
      Unreachable, Unreachable, Unreachable, Unreachable, Unreachable]"
    by (simp add: portsToCheck_eq concrete_defs)
  from C2_amended_first_live_wins [OF 1 2 3 4 5, of initial] 6 show ?thesis by blast
qed

text \<open>
  Claim C2 as stated fails on that round: 55100 and 55104 are both live, 55104 answers
  first, and the round ends in \<open>CONNECTED\<close> with port 55104, not in
  \<open>MULTIPLE_CONNECTIONS\<close> with the port absent.
\<close>

theorem C2_two_live_counterexample:
  "map (probeResult \<circ> twoLive) portsToCheck =
     [Live 55100, Unreachable, Unreachable, Unreachable, Live 55104,
      Unreachable, Unreachable, Unreachable, Unreachable, Unreachable]
   \<and> connectionState (state (portDiscovery twoLive initial)) = CONNECTED
   \<and> connectionState (state (portDiscovery twoLive initial)) \<noteq> MULTIPLE_CONNECTIONS
   \<and> dynamoPort (portDiscovery twoLive initial) = Some 55104
   \<and> dynamoPort (portDiscovery twoLive initial) \<noteq> None"
  by (simp add: portsToCheck_eq concrete_defs portDiscovery_def portDiscovery_settle_def
      Promise_any_def setter_defs initial_def timerStates_def)

text \<open>
  Claim C5. In every round in which no probe is live, the resulting connection state is
  \<open>BLOCKED\<close> if at least one probe was rejected with status 503, and \<open>NOT_CONNECTED\<close>
  otherwise.
\<close>

theorem C5_zero_live:
  assumes "\<forall>q\<in>set portsToCheck. \<forall>p. probeResult (Dynamo_health q) \<noteq> Live p"
  shows "connectionState (state (portDiscovery Dynamo_health h)) =
           (if \<exists>q\<in>set portsToCheck. probeResult (Dynamo_health q) = Rejected 503
            then BLOCKED else NOT_CONNECTED)"
proof -
  have "firstFulfilled (map Dynamo_health portsToCheck) = None"
    using assms by (simp add: firstFulfilled_None probeResult_not_Live)
  from round_rejected [OF this, of h] show ?thesis
    by (simp add: probeResult_Rejected)
qed

text \<open>
  Claim C5 at two concrete rounds: one in which port 55102 answers 503 and the others
  refuse, and one in which every port refuses.
\<close>

theorem C5_zero_live_witness:
  "map (probeResult \<circ> oneBlocked) portsToCheck =
     [Unreachable, Unreachable, Rejected 503, Unreachable, Unreachable,
      Unreachable, Unreachable, Unreachable, Unreachable, Unreachable]
   \<and> connectionState (state (portDiscovery oneBlocked initial)) = BLOCKED
   \<and> map (probeResult \<circ> noneLive) portsToCheck =
     [Unreachable, Unreachable, Unreachable, Unreachable, Unreachable,
      Unreachable, Unreachable, Unreachable, Unreachable, Unreachable]
   \<and> connectionState (state (portDiscovery noneLive initial)) = NOT_CONNECTED"
proof -
  have b: "\<forall>q\<in>set portsToCheck. \<forall>p. probeResult (oneBlocked q) \<noteq> Live p"
    by (simp add: portsToCheck_eq concrete_defs)
  have n: "\<forall>q\<in>set portsToCheck. \<forall>p. probeResult (noneLive q) \<noteq> Live p"
    by (simp add: concrete_defs)
  have ex: "\<exists>q\<in>set portsToCheck. probeResult (oneBlocked q) = Rejected 503"
    by (simp add: portsToCheck_eq concrete_defs)
  have nex: "\<not> (\<exists>q\<in>set portsToCheck. probeResult (noneLive q) = Rejected 503)"
    by (simp add: concrete_defs)
  have 1: "connectionState (state (portDiscovery oneBlocked initial)) = BLOCKED"
    using C5_zero_live [OF b, of initial] ex by (simp only: if_True)
  have 2: "connectionState (state (portDiscovery noneLive initial)) = NOT_CONNECTED"
    using C5_zero_live [OF n, of initial] nex by (simp only: if_False)
  have 3: "map (probeResult \<circ> oneBlocked) portsToCheck =
     [Unreachable, Unreachable, Rejected 503, Unreachable, Unreachable,
      Unreachable, Unreachable, Unreachable, Unreachable, Unreachable]"
    by (simp add: portsToCheck_eq concrete_defs)
  have 4: "map (probeResult \<circ> noneLive) portsToCheck =
     [Unreachable, Unreachable, Unreachable, Unreachable, Unreachable,
      Unreachable, Unreachable, Unreachable, Unreachable, Unreachable]"
    by (simp add: portsToCheck_eq concrete_defs)
  from 1 2 3 4 show ?thesis by (intro conjI)
qed

text \<open>
  Claim C6. In every round in which exactly one probe is live, reporting port \<open>p\<close>, and
  all the others are unreachable, the resulting connection state is \<open>CONNECTED\<close> and the
  port held by the hook is \<open>p\<close>. The candidate ports are the ten ports 55100 to 55109; all
  ten probes are issued before the round awaits any of them, each settling at its own
  instant.
\<close>

theorem C6_single_live:
  assumes "q \<in> set portsToCheck"
      and "probeResult (Dynamo_health q) = Live p"
      and "\<forall>r\<in>set portsToCheck. r \<noteq> q \<longrightarrow> probeResult (Dynamo_health r) = Unreachable"
  shows "connectionState (state (portDiscovery Dynamo_health h)) = CONNECTED
       \<and> dynamoPort (portDiscovery Dynamo_health h) = Some p
       \<and> portsToCheck =
           [55100, 55101, 55102, 55103, 55104, 55105, 55106, 55107, 55108, 55109]"
proof -
  from assms(2) obtain t v where live: "Dynamo_health q = (t, Inr v)" "port v = p"
    by (auto simp: probeResult_Live)
  have "firstFulfilled (map Dynamo_health portsToCheck) \<noteq> None"
    using assms(1) live(1) by (auto simp: firstFulfilled_None intro!: bexI [of _ q])
  then obtain t' v' where ff: "firstFulfilled (map Dynamo_health portsToCheck) = Some (t', v')"
    by auto
  from firstFulfilled_Some [OF ff] obtain r where r: "r \<in> set portsToCheck"
    "Dynamo_health r = (t', Inr v')" by auto
  have "r = q"
  proof (rule ccontr)
    assume "r \<noteq> q"
    with assms(3) r(1) have "probeResult (Dynamo_health r) = Unreachable" by blast
    with r(2) show False by (simp add: probeResult_def)
  qed
  with r(2) live have "v' = v" by simp
  with round_resolved [OF ff, of h] live(2) show ?thesis
    by (simp add: portsToCheck_eq)
qed

text \<open>Claim C6 at a concrete round: port 55103 is live, the others refuse.\<close>

theorem C6_single_live_witness:
  "map (probeResult \<circ> oneLive) portsToCheck =
     [Unreachable, Unreachable, Unreachable, Live 55103, Unreachable,
      Unreachable, Unreachable, Unreachable, Unreachable, Unreachable]
   \<and> connectionState (state (portDiscovery oneLive initial)) = CONNECTED
   \<and> dynamoPort (portDiscovery oneLive initial) = Some 55103"
proof -
  have 1: "55103 \<in> set portsToCheck" by (simp add: portsToCheck_eq)
  have 2: "probeResult (oneLive 55103) = Live 55103" by (simp add: concrete_defs)
  have 3: "\<forall>r\<in>set portsToCheck. r \<noteq> 55103 \<longrightarrow> probeResult (oneLive r) = Unreachable"
    by (simp add: portsToCheck_eq concrete_defs)
  have 4: "map (probeResult \<circ> oneLive) portsToCheck =
     [Unreachable, Unreachable, Unreachable, Live 55103, Unreachable,
      Unreachable, Unreachable, Unreachable, Unreachable, Unreachable]"
    by (simp add: portsToCheck_eq concrete_defs)
  from C6_single_live [OF 1 2 3, of initial] 4 show ?thesis by blast
qed

subsection \<open>The facade and its error feedback\<close>

text \<open>
  Claim C1 (the code departs from it). Of the six operations the claim lists, \<open>folder\<close>,
  \<open>info\<close>, \<open>run\<close> and \<open>trust\<close> carry a \<open>catch\<close> handler that sets \<open>LOST_CONNECTION\<close>;
  \<open>serverInfo\<close> and \<open>current\<close> carry none. Evaluated on a connected hook whose service
  refuses the connection: the failure reaches the caller, and the connection state is
  still \<open>CONNECTED\<close>. The same holds for \<open>serverInfo\<close> called through the queued
  facade; the queued \<open>current\<close> calls \<open>info\<close> of the facade and does set
  \<open>LOST_CONNECTION\<close>, as \<open>folder\<close> does.
\<close>

theorem C1_serverInfo_failure_keeps_state:
  "connectionState (state connected) = CONNECTED
   \<and> fst (serverInfo (failing refused) connected) = Inl refused
   \<and> connectionState (state (snd (serverInfo (failing refused) connected))) = CONNECTED
   \<and> fst (current (failing refused) connected) = Inl refused
   \<and> connectionState (state (snd (current (failing refused) connected))) = CONNECTED
   \<and> connectionState (state (snd (snd (queued_serverInfo (failing refused)) connected)))
       = CONNECTED
   \<and> connectionState (state (snd (snd (queued_current (failing refused)) connected)))
       = LOST_CONNECTION
   \<and> connectionState (state (snd (folder (failing refused) ''/graphs'' connected)))
       = LOST_CONNECTION"
  by (simp add: serverInfo_def current_def info_def folder_def queued_serverInfo_def
      queued_current_def failing_def refused_def connectionState_set connected_eq)

text \<open>
  Claim C4. When the call behind \<open>info\<close> is rejected, the rejection is passed on to the
  caller; if it has status 500 and the message "Graph is not trusted." the hook is left
  exactly as it was, and for every other rejection the connection state becomes
  \<open>LOST_CONNECTION\<close>.
\<close>

theorem C4_info_not_trusted:
  assumes "dynamo (getDynamoUrl h) (InfoRequest target) = Inl e"
  shows "fst (info dynamo target h) = Inl e
       \<and> (if status e = Some 500 \<and> message e = ''Graph is not trusted.''
          then snd (info dynamo target h) = h
          else connectionState (state (snd (info dynamo target h))) = LOST_CONNECTION)"
  using assms by (simp add: info_def connectionState_set)

text \<open>
  Claim C4 on a connected hook, once with the "not trusted" rejection and once with
  another status 500 rejection.
\<close>

theorem C4_info_not_trusted_witness:
  "fst (info (failing notTrusted) CurrentGraphTarget connected) = Inl notTrusted
   \<and> snd (info (failing notTrusted) CurrentGraphTarget connected) = connected
   \<and> fst (info (failing serverError) CurrentGraphTarget connected) = Inl serverError
   \<and> connectionState (state (snd (info (failing serverError) CurrentGraphTarget connected)))
       = LOST_CONNECTION"
proof -
  have 1: "failing notTrusted (getDynamoUrl connected) (InfoRequest CurrentGraphTarget)
             = Inl notTrusted"
    by (simp add: failing_def)
  have 2: "failing serverError (getDynamoUrl connected) (InfoRequest CurrentGraphTarget)
             = Inl serverError"
    by (simp add: failing_def)
  from C4_info_not_trusted [where dynamo = "failing notTrusted" and e = notTrusted, OF 1]
    C4_info_not_trusted [where dynamo = "failing serverError" and e = serverError, OF 2]
  show ?thesis
    by (simp add: notTrusted_def serverError_def)
qed

lemma settle_endpoint:
  "dynamoPort (portDiscovery_settle (Inr response) h) = Some (port response)"
  "connectionState (state (portDiscovery_settle (Inr response) h)) = CONNECTED"
  "dynamoPort (portDiscovery_settle (Inl e) h) = dynamoPort h"
  by (simp_all add: portDiscovery_settle_def setDynamoPort_def connectionState_set
      dynamoPort_set split: exn.splits)

text \<open>
  Two rounds in flight: while the round started on mounting is pending, \<open>reconnect\<close> starts
  a second one; the first finds port 55103, then the second is rejected. The rejection
  branch of \<open>portDiscovery\<close> never touches the port, so the hook ends in \<open>NOT_CONNECTED\<close>
  with port 55103 still set.
\<close>

lemma overlapping_rounds_keep_port:
  "connectionState (state (after [Reconnect, RoundSettled (Inr \<lparr>port = 55103\<rparr>),
       RoundSettled (Inl (AggregateError [refused]))] mount)) = NOT_CONNECTED
   \<and> dynamoPort (after [Reconnect, RoundSettled (Inr \<lparr>port = 55103\<rparr>),
       RoundSettled (Inl (AggregateError [refused]))] mount) = Some 55103"
  by (simp add: mount_eq portDiscovery_settle_def refused_def setter_defs timerStates_def)

text \<open>
  Claim C7, as amended. The claim says the port is absent whenever the connection state is
  not \<open>CONNECTED\<close>, being cleared also when a facade operation sets \<open>LOST_CONNECTION\<close>.
  The \<open>catch\<close> handlers of the facade call \<open>setState\<close> only, never \<open>setDynamoPort\<close>. What
  holds: the port is cleared at the start of every round; the completion of a round sets
  it, to the port the probe reports, exactly when the round resolves, which is when it
  ends in \<open>CONNECTED\<close>, and leaves it as it is when the round is rejected; so a round
  during which nothing else happens to the hook leaves the port absent unless it ended in
  \<open>CONNECTED\<close>. No facade operation changes the port, which after a demotion to
  \<open>LOST_CONNECTION\<close> stays as it was until the next round starts.
\<close>

theorem C7_amended_endpoint:
  "dynamoPort (portDiscovery_begin h) = None
   \<and> dynamoPort (portDiscovery_settle (Inr response) h) = Some (port response)
   \<and> connectionState (state (portDiscovery_settle (Inr response) h)) = CONNECTED
   \<and> dynamoPort (portDiscovery_settle (Inl e) h) = dynamoPort h
   \<and> (connectionState (state (portDiscovery Dynamo_health h)) \<noteq> CONNECTED
        \<longrightarrow> dynamoPort (portDiscovery Dynamo_health h) = None)
   \<and> dynamoPort (snd (folder dynamo path h)) = dynamoPort h
   \<and> dynamoPort (snd (current dynamo h)) = dynamoPort h
   \<and> dynamoPort (snd (info dynamo target h)) = dynamoPort h
   \<and> dynamoPort (snd (run dynamo target inputs h)) = dynamoPort h
   \<and> dynamoPort (snd (trust dynamo path h)) = dynamoPort h
   \<and> dynamoPort (snd (serverInfo dynamo h)) = dynamoPort h"
  using round_endpoint [of Dynamo_health h]
  by (simp add: facade_dynamoPort settle_endpoint)
     (simp add: portDiscovery_begin_def setDynamoPort_def)

text \<open>
  The amended claim C7 on a connected hook: a round in which every port refuses, the start
  of a round, the rejection of a round on its own, and a failing \<open>run\<close>.
\<close>

theorem C7_amended_endpoint_witness:
  "connectionState (state (portDiscovery noneLive connected)) = NOT_CONNECTED
   \<and> dynamoPort (portDiscovery noneLive connected) = None
   \<and> dynamoPort (portDiscovery_begin connected) = None
   \<and> dynamoPort (portDiscovery_settle (Inl (AggregateError [refused])) connected) = Some 55103
   \<and> dynamoPort (snd (run (failing refused) CurrentGraphTarget [] connected)) = Some 55103"
proof -
  have 1: "connectionState (state (portDiscovery noneLive connected)) = NOT_CONNECTED"
    by (simp add: connected_eq portsToCheck_eq concrete_defs portDiscovery_def
        portDiscovery_settle_def Promise_any_def setter_defs timerStates_def)
  have 2: "dynamoPort connected = Some 55103" by (simp add: connected_eq)
  from C7_amended_endpoint [where h = connected and Dynamo_health = noneLive
      and dynamo = "failing refused" and target = CurrentGraphTarget and inputs = "[]"
      and e = "AggregateError [refused]"]
    1 2 show ?thesis by simp
qed

text \<open>
  Claim C7 as stated fails on a connected hook whose \<open>folder\<close> call is refused: the
  connection state is \<open>LOST_CONNECTION\<close> and the port is still 55103.
\<close>

theorem C7_stale_endpoint_counterexample:
  "connectionState (state (snd (folder (failing refused) ''/graphs'' connected)))
     = LOST_CONNECTION
   \<and> dynamoPort (snd (folder (failing refused) ''/graphs'' connected)) = Some 55103"
  by (simp add: folder_def failing_def connected_eq setter_defs timerStates_def)

text \<open>
  Claim C10. Every update of the connection state leaves \<open>currentOpenGraph\<close> as it was:
  a whole discovery round, its start and its completion, and every operation of the
  facade. The state after a \<open>setState\<close> of the hook is the previous state with the
  \<open>connectionState\<close> field replaced.
\<close>

theorem C10_currentOpenGraph_unchanged:
  "currentOpenGraph (state (portDiscovery Dynamo_health h)) = currentOpenGraph (state h)
   \<and> currentOpenGraph (state (portDiscovery_begin h)) = currentOpenGraph (state h)
   \<and> currentOpenGraph (state (portDiscovery_settle r h)) = currentOpenGraph (state h)
   \<and> state (setConnectionState s h) = (state h)\<lparr>connectionState := s\<rparr>
   \<and> currentOpenGraph (state (snd (folder dynamo path h))) = currentOpenGraph (state h)
   \<and> currentOpenGraph (state (snd (current dynamo h))) = currentOpenGraph (state h)
   \<and> currentOpenGraph (state (snd (info dynamo target h))) = currentOpenGraph (state h)
   \<and> currentOpenGraph (state (snd (run dynamo target inputs h))) = currentOpenGraph (state h)
   \<and> currentOpenGraph (state (snd (trust dynamo path h))) = currentOpenGraph (state h)
   \<and> currentOpenGraph (state (snd (serverInfo dynamo h))) = currentOpenGraph (state h)"
  by (simp add: facade_currentOpenGraph currentOpenGraph_settle currentOpenGraph_begin
      state_set portDiscovery_def)

text \<open>
  Claim C10 on a connected hook with a graph open: after a round in which every port
  refuses, and after a refused \<open>run\<close>, the graph is still the one that was open.
\<close>

theorem C10_currentOpenGraph_unchanged_witness:
  "currentOpenGraph (state graphOpen) = Some (GraphInfo ''tower.dyn'')
   \<and> currentOpenGraph (state (portDiscovery noneLive graphOpen))
       = Some (GraphInfo ''tower.dyn'')
   \<and> currentOpenGraph (state (snd (run (failing refused) CurrentGraphTarget [] graphOpen)))
       = Some (GraphInfo ''tower.dyn'')"
proof -
  have g: "currentOpenGraph (state graphOpen) = Some (GraphInfo ''tower.dyn'')"
    by (simp add: graphOpen_def)
  from C10_currentOpenGraph_unchanged
    [of noneLive graphOpen "Inl OtherError" INIT "failing refused" "[]" CurrentGraphTarget "[]"]
    g show ?thesis by simp
qed

subsection \<open>The background timer\<close>




lemma elapse_calls:
  "intervalId h = Some r \<Longrightarrow> 1 \<le> r \<Longrightarrow> r \<le> 2000 \<Longrightarrow>
     discoveryCalls (elapse n h) = discoveryCalls h + (n + 2000 - r) div 2000"
proof (induction n arbitrary: h r)
  case 0
  then show ?case by simp
next
  case (Suc n)
  show ?case
  proof (cases "r \<le> 1")
    case True
    with Suc.prems have r: "r = 1" by simp
    let ?h = "portDiscovery_begin (h\<lparr>intervalId := Some 2000\<rparr>)"
    have t: "tick h = ?h" using Suc.prems(1) r by (simp add: tick_def)
    have "intervalId ?h = Some 2000" "discoveryCalls ?h = Suc (discoveryCalls h)"
      by (simp_all add: portDiscovery_begin_def setDynamoPort_def)
    with Suc.IH [of ?h 2000] t r show ?thesis by simp
  next
    case False
    let ?h = "h\<lparr>intervalId := Some (r - 1)\<rparr>"
    have t: "tick h = ?h" using Suc.prems(1) False by (simp add: tick_def)
    have "intervalId ?h = Some (r - 1)" "discoveryCalls ?h = discoveryCalls h" by simp_all
    moreover have "n + 2000 - (r - 1) = Suc n + 2000 - r" using False Suc.prems by arith
    ultimately show ?thesis using Suc.IH [of ?h "r - 1"] t False Suc.prems by simp
  qed
qed








lemma facade_effect:
  assumes "h' \<in> {snd (folder dynamo path h), snd (current dynamo h),
                 snd (info dynamo target h), snd (run dynamo target inputs h),
                 snd (trust dynamo path' h), snd (serverInfo dynamo h)}"
  shows "h' = h \<or> h' = setConnectionState LOST_CONNECTION h"
  using assms by (auto simp: facade_defs split: sum.splits if_splits)

lemma settle_supersedes:
  "connectionState (state (portDiscovery_settle (Promise_any ps) h)) \<noteq> LOST_CONNECTION"
  by (simp add: portDiscovery_settle_def Promise_any_def connectionState_set setDynamoPort_def
      split: option.splits)



lemma runEffects_lost:
  "connectionState (state k) = LOST_CONNECTION \<Longrightarrow>
     intervalId (runEffects k) = Some 2000 \<and> discoveryCalls (runEffects k) = discoveryCalls k"
  by (simp add: runEffects_def timerStates_def)

text \<open>
  Claim C3, as amended. The claim says that a demotion to \<open>LOST_CONNECTION\<close> by a facade
  operation is followed at once by exactly one discovery round. The \<open>catch\<close> handlers
  call \<open>setState\<close> and nothing else, and only the effect for \<open>INIT\<close> calls
  \<open>portDiscovery\<close> directly. What holds: when a facade operation leaves the hook in
  \<open>LOST_CONNECTION\<close>, the operation has started no round; \<open>LOST_CONNECTION\<close> is one of
  the timer states, and the effects run for it arm the 2000 ms interval and start no round
  either, so that re-discovery is left to the background timer; and whenever a round then
  completes, the connection state is no longer \<open>LOST_CONNECTION\<close>.
\<close>

theorem C3_amended_no_round_on_demotion:
  assumes "h' \<in> {snd (folder dynamo path h), snd (current dynamo h),
                  snd (info dynamo target h), snd (run dynamo target inputs h),
                  snd (trust dynamo path' h), snd (serverInfo dynamo h)}"
      and "connectionState (state h') = LOST_CONNECTION"
  shows "discoveryCalls h' = discoveryCalls h
       \<and> LOST_CONNECTION \<in> set timerStates
       \<and> (connectionState (state k) = LOST_CONNECTION \<longrightarrow>
            intervalId (runEffects k) = Some 2000
          \<and> discoveryCalls (runEffects k) = discoveryCalls k)
       \<and> connectionState (state (portDiscovery_settle
            (Promise_any (map Dynamo_health portsToCheck)) k')) \<noteq> LOST_CONNECTION"
proof -
  from facade_effect [OF assms(1)]
  have "h' = h \<or> h' = setConnectionState LOST_CONNECTION h" .
  then have calls: "discoveryCalls h' = discoveryCalls h"
    by (auto simp: discoveryCalls_set)
  have timer: "LOST_CONNECTION \<in> set timerStates" by (simp add: timerStates_def)
  from calls timer runEffects_lost [of k] settle_supersedes show ?thesis by blast
qed

text \<open>The amended claim C3 on a connected hook whose \<open>run\<close> call is refused.\<close>

theorem C3_amended_no_round_on_demotion_witness:
  "connectionState (state (snd (run (failing refused) CurrentGraphTarget [] connected)))
       = LOST_CONNECTION
   \<and> discoveryCalls (snd (run (failing refused) CurrentGraphTarget [] connected))
       = discoveryCalls connected
   \<and> intervalId (runEffects (snd (run (failing refused) CurrentGraphTarget [] connected)))
       = Some 2000
   \<and> connectionState (state (portDiscovery_settle (Promise_any (map noneLive portsToCheck))
        (snd (run (failing refused) CurrentGraphTarget [] connected)))) = NOT_CONNECTED"
proof -
  let ?h' = "snd (run (failing refused) CurrentGraphTarget [] connected)"
  have 1: "?h' \<in> {snd (folder (failing refused) [] connected),
                   snd (current (failing refused) connected),
                   snd (info (failing refused) CurrentGraphTarget connected),
                   snd (run (failing refused) CurrentGraphTarget [] connected),
                   snd (trust (failing refused) [] connected),
                   snd (serverInfo (failing refused) connected)}"
    by simp
  have 2: "connectionState (state ?h') = LOST_CONNECTION"
    by (simp add: run_def failing_def connectionState_set)
  have 3: "connectionState (state (portDiscovery_settle (Promise_any (map noneLive portsToCheck))
        ?h')) = NOT_CONNECTED"
    by (simp add: portsToCheck_eq concrete_defs portDiscovery_settle_def Promise_any_def
        connectionState_set)
  from C3_amended_no_round_on_demotion [OF 1 2, where k = ?h'] 2 3 show ?thesis by blast
qed

text \<open>
  Claim C3 as stated fails on a connected hook whose \<open>run\<close> call is refused: the state
  becomes \<open>LOST_CONNECTION\<close>, and the number of rounds started is 1 before the call, 1
  right after it, and still 1 after 1999 ms.
\<close>

theorem C3_no_immediate_round_counterexample:
  "connectionState (state connected) = CONNECTED
   \<and> connectionState (state (snd (run (failing refused) CurrentGraphTarget [] connected)))
       = LOST_CONNECTION
   \<and> discoveryCalls connected = 1
   \<and> discoveryCalls (snd (run (failing refused) CurrentGraphTarget [] connected)) = 1
   \<and> discoveryCalls (elapse 1999 (snd (run (failing refused) CurrentGraphTarget [] connected)))
       = 1"
proof -
  let ?h' = "snd (run (failing refused) CurrentGraphTarget [] connected)"
  have h': "?h' =
     \<lparr>state = \<lparr>currentOpenGraph = None, connectionState = LOST_CONNECTION\<rparr>,
      dynamoPort = Some 55103, intervalId = Some 2000, discoveryCalls = 1\<rparr>"
    by (simp add: run_def failing_def connected_eq setter_defs timerStates_def)
  have "discoveryCalls (elapse 1999 ?h') = discoveryCalls ?h' + (1999 + 2000 - 2000) div 2000"
    by (rule elapse_calls) (simp_all add: h')
  then have 1: "discoveryCalls (elapse 1999 ?h') = 1" by (simp add: h')
  have 2: "connectionState (state ?h') = LOST_CONNECTION" "discoveryCalls ?h' = 1"
    by (simp_all add: h')
  have 3: "connectionState (state connected) = CONNECTED" "discoveryCalls connected = 1"
    by (simp_all add: connected_eq)
  from 1 2 3 show ?thesis by (intro conjI)
qed

subsection \<open>The serial request queue\<close>


















end
